theory Spec2Isabelle
  imports Complex_Main "HOL-Library.Word"
begin

section \<open>Tabular data\<close>

text \<open>
  The program reads a CSV file into a pandas DataFrame and works on it column by column.
  A cell that the CSV reader parsed as a number is a 64-bit float or integer; every
  comparison the program makes is against one of the integer constants 100, 1000 and 5,
  and such a comparison is exact on a finite value, so a finite number is modelled by the
  rational it denotes. The two infinities and the missing value (an empty CSV field, read
  as NaN) are kept apart: every ordering test on NaN is false. Anything else is text.
\<close>

datatype number = Finite rat | PosInf | NegInf | NaN

datatype cell = Str string | Num number

text \<open>
  The exceptions that can reach the program: a column label that the table does not have,
  an ordering comparison between text and a number, and a failure of the document layout
  engine.
\<close>

datatype error = KeyError string | TypeError | LayoutError

text \<open>
  A table is its header and its rows in file order. Row \<open>r\<close> holds the cell of column
  number \<open>i\<close> at position \<open>i\<close>; a table is rectangular, and a field that a short CSV
  line leaves out is the missing value.
\<close>

record data_frame =
  columns :: "string list"
  rows :: "cell list list"

fun and_then :: "error + 'a \<Rightarrow> ('a \<Rightarrow> error + 'b) \<Rightarrow> error + 'b" where
  "and_then (Inl e) f = Inl e"
| "and_then (Inr x) f = f x"

fun col_index :: "string list \<Rightarrow> string \<Rightarrow> nat option" where
  "col_index [] c = None"
| "col_index (x # xs) c = (if x = c then Some 0 else map_option Suc (col_index xs c))"

definition cell_at :: "cell list \<Rightarrow> nat \<Rightarrow> cell" where
  "cell_at r i = (if i < length r then r ! i else Num NaN)"

text \<open>\<^verbatim>\<open>data[c]\<close>: the column labelled \<open>c\<close>, top to bottom.\<close>

definition getitem :: "data_frame \<Rightarrow> string \<Rightarrow> error + cell list" where
  "getitem df c =
     (case col_index (columns df) c of
        None \<Rightarrow> Inl (KeyError c)
      | Some i \<Rightarrow> Inr (map (\<lambda>r. cell_at r i) (rows df)))"

fun num_gt :: "number \<Rightarrow> rat \<Rightarrow> bool" where
  "num_gt (Finite x) c = (c < x)"
| "num_gt PosInf c = True"
| "num_gt NegInf c = False"
| "num_gt NaN c = False"

fun num_lt :: "number \<Rightarrow> rat \<Rightarrow> bool" where
  "num_lt (Finite x) c = (x < c)"
| "num_lt PosInf c = False"
| "num_lt NegInf c = True"
| "num_lt NaN c = False"

fun cell_gt :: "cell \<Rightarrow> rat \<Rightarrow> error + bool" where
  "cell_gt (Num x) c = Inr (num_gt x c)"
| "cell_gt (Str s) c = Inl TypeError"

fun cell_lt :: "cell \<Rightarrow> rat \<Rightarrow> error + bool" where
  "cell_lt (Num x) c = Inr (num_lt x c)"
| "cell_lt (Str s) c = Inl TypeError"

text \<open>\<^verbatim>\<open>series > c\<close> and \<^verbatim>\<open>series < c\<close>: the comparison cell by cell, a boolean column.\<close>

fun series_gt :: "cell list \<Rightarrow> rat \<Rightarrow> error + bool list" where
  "series_gt [] c = Inr []"
| "series_gt (x # xs) c =
     and_then (cell_gt x c) (\<lambda>b. and_then (series_gt xs c) (\<lambda>bs. Inr (b # bs)))"

fun series_lt :: "cell list \<Rightarrow> rat \<Rightarrow> error + bool list" where
  "series_lt [] c = Inr []"
| "series_lt (x # xs) c =
     and_then (cell_lt x c) (\<lambda>b. and_then (series_lt xs c) (\<lambda>bs. Inr (b # bs)))"

text \<open>\<^verbatim>\<open>a | b\<close> on two boolean columns of one table.\<close>

definition series_or :: "bool list \<Rightarrow> bool list \<Rightarrow> bool list" where
  "series_or a b = map (\<lambda>(x, y). x \<or> y) (zip a b)"

text \<open>\<^verbatim>\<open>mask.any()\<close>.\<close>

definition series_any :: "bool list \<Rightarrow> bool" where
  "series_any bs = list_ex (\<lambda>b. b) bs"

text \<open>\<^verbatim>\<open>data[mask]\<close>: a new table of the rows whose mask entry is true.\<close>

definition getitem_mask :: "data_frame \<Rightarrow> bool list \<Rightarrow> data_frame" where
  "getitem_mask df bs = df\<lparr>rows := map fst (filter snd (zip (rows df) bs))\<rparr>"

text \<open>\<^verbatim>\<open>data.empty\<close>: no column or no row.\<close>

definition df_empty :: "data_frame \<Rightarrow> bool" where
  "df_empty df = (columns df = [] \<or> rows df = [])"

section \<open>Anomaly detection and recommendations\<close>

text \<open>
  \<open>detect_anomalies\<close> (tracker.py, lines 11 to 18) compares three columns with their
  thresholds, joins the three boolean columns and selects the rows of the joined mask:
  \<^verbatim>\<open>
  anomalies = data[
      (data['Heart Rate (bpm)'] > 100) |
      (data['Steps'] < 1000) |
      (data['Sleep Duration (hours)'] < 5)
  ]
  return anomalies
  \<close>
  The operands are evaluated left to right, so the first failing lookup or comparison is
  the exception of the call.
\<close>

definition detect_anomalies :: "data_frame \<Rightarrow> error + data_frame" where
  "detect_anomalies data =
     and_then (getitem data ''Heart Rate (bpm)'') (\<lambda>hr.
     and_then (series_gt hr 100) (\<lambda>m1.
     and_then (getitem data ''Steps'') (\<lambda>st.
     and_then (series_lt st 1000) (\<lambda>m2.
     and_then (getitem data ''Sleep Duration (hours)'') (\<lambda>sl.
     and_then (series_lt sl 5) (\<lambda>m3.
     Inr (getitem_mask data (series_or (series_or m1 m2) m3))))))))"

text \<open>
  \<open>provide_recommendations\<close> (tracker.py, lines 20 to 32) appends to a list that starts
  empty:
  \<^verbatim>\<open>
  recommendations = []
  if not anomalies.empty:
      if (anomalies['Heart Rate (bpm)'] > 100).any():
          recommendations.append("Consider consulting a doctor about high heart rate readings.")
      if (anomalies['Steps'] < 1000).any():
          recommendations.append("Increase daily steps to at least 1000 for better health.")
      if (anomalies['Sleep Duration (hours)'] < 5).any():
          recommendations.append("Ensure to get at least 5-7 hours of sleep daily.")
  else:
      recommendations.append("No anomalies detected. Keep up the good work!")
  return recommendations
  \<close>
\<close>

definition provide_recommendations :: "data_frame \<Rightarrow> error + string list" where
  "provide_recommendations anomalies =
     (let recommendations = [] in
      if \<not> df_empty anomalies then
        and_then (getitem anomalies ''Heart Rate (bpm)'') (\<lambda>hr.
        and_then (series_gt hr 100) (\<lambda>m1.
        let recommendations =
              (if series_any m1
               then recommendations @
                    [''Consider consulting a doctor about high heart rate readings.'']
               else recommendations) in
        and_then (getitem anomalies ''Steps'') (\<lambda>st.
        and_then (series_lt st 1000) (\<lambda>m2.
        let recommendations =
              (if series_any m2
               then recommendations @
                    [''Increase daily steps to at least 1000 for better health.'']
               else recommendations) in
        and_then (getitem anomalies ''Sleep Duration (hours)'') (\<lambda>sl.
        and_then (series_lt sl 5) (\<lambda>m3.
        let recommendations =
              (if series_any m3
               then recommendations @
                    [''Ensure to get at least 5-7 hours of sleep daily.'']
               else recommendations) in
        Inr recommendations))))))
      else Inr (recommendations @ [''No anomalies detected. Keep up the good work!'']))"

section \<open>Byte buffers\<close>

text \<open>
  An in-memory binary file (\<^verbatim>\<open>io.BytesIO\<close>): its bytes and the position of the
  next read or write. Writing overwrites from the position on and lengthens the file where
  needed; reading returns everything from the position to the end.
\<close>

type_synonym byte = "8 word"

record bytes_io =
  content :: "byte list"
  pos :: nat

definition BytesIO :: bytes_io where
  "BytesIO = \<lparr>content = [], pos = 0\<rparr>"

definition bio_write :: "bytes_io \<Rightarrow> byte list \<Rightarrow> bytes_io" where
  "bio_write b d =
     \<lparr>content =
        take (pos b) (content b) @ replicate (pos b - length (content b)) 0 @ d @
        drop (pos b + length d) (content b),
      pos = pos b + length d\<rparr>"

definition bio_seek :: "bytes_io \<Rightarrow> nat \<Rightarrow> bytes_io" where
  "bio_seek b n = b\<lparr>pos := n\<rparr>"

definition bio_read :: "bytes_io \<Rightarrow> byte list \<times> bytes_io" where
  "bio_read b = (drop (pos b) (content b), b\<lparr>pos := max (pos b) (length (content b))\<rparr>)"

section \<open>The chart\<close>

text \<open>
  The program draws through the state machine of the plotting library: a list of open
  figures, the newest being the current one, each with its axes and a current axes. Only
  what the program passes to the library is modelled: the data of each line, its marker and
  colour, the title and tick rotation of each axes, the size and layout of the figure. The
  encoder that turns a figure into the bytes of an image belongs to the library and is a
  parameter \<open>png\<close> of \<open>plot_data\<close>.
\<close>

record line2d =
  xdata :: "cell list"
  ydata :: "cell list"
  marker :: string
  color :: "string option"

record axes =
  subplot_spec :: "nat \<times> nat \<times> nat"
  lines :: "line2d list"
  title :: string
  xtick_rotation :: rat

record figure =
  figsize :: "rat \<times> rat"
  axes_list :: "axes list"
  current_axes :: nat
  tight :: bool

type_synonym pyplot = "figure list"

definition new_figure :: "rat \<times> rat \<Rightarrow> figure" where
  "new_figure wh = \<lparr>figsize = wh, axes_list = [], current_axes = 0, tight = False\<rparr>"

definition new_axes :: "nat \<times> nat \<times> nat \<Rightarrow> axes" where
  "new_axes spec = \<lparr>subplot_spec = spec, lines = [], title = [], xtick_rotation = 0\<rparr>"

text \<open>
  A drawing command acts on the current figure, and on its current axes; the library
  opens a default figure or axes when there is none.
\<close>

definition on_gcf :: "(figure \<Rightarrow> figure) \<Rightarrow> pyplot \<Rightarrow> pyplot" where
  "on_gcf f plt =
     (if plt = [] then [f (new_figure (6.4, 4.8))] else butlast plt @ [f (last plt)])"

definition on_gca :: "(axes \<Rightarrow> axes) \<Rightarrow> figure \<Rightarrow> figure" where
  "on_gca f fig =
     (if axes_list fig = []
      then fig\<lparr>axes_list := [f (new_axes (1, 1, 1))], current_axes := 0\<rparr>
      else if current_axes fig < length (axes_list fig)
      then fig\<lparr>axes_list := (axes_list fig)[current_axes fig :=
                 f (axes_list fig ! current_axes fig)]\<rparr>
      else fig)"

definition plt_figure :: "rat \<times> rat \<Rightarrow> pyplot \<Rightarrow> pyplot" where
  "plt_figure wh plt = plt @ [new_figure wh]"

fun find_axes :: "axes list \<Rightarrow> nat \<times> nat \<times> nat \<Rightarrow> nat option" where
  "find_axes [] spec = None"
| "find_axes (a # as) spec =
     (if subplot_spec a = spec then Some 0 else map_option Suc (find_axes as spec))"

definition plt_subplot :: "nat \<Rightarrow> nat \<Rightarrow> nat \<Rightarrow> pyplot \<Rightarrow> pyplot" where
  "plt_subplot nrows ncols index =
     on_gcf (\<lambda>fig.
       case find_axes (axes_list fig) (nrows, ncols, index) of
         Some k \<Rightarrow> fig\<lparr>current_axes := k\<rparr>
       | None \<Rightarrow> fig\<lparr>axes_list := axes_list fig @ [new_axes (nrows, ncols, index)],
                     current_axes := length (axes_list fig)\<rparr>)"

definition plt_plot ::
  "cell list \<Rightarrow> cell list \<Rightarrow> string \<Rightarrow> string option \<Rightarrow> pyplot \<Rightarrow> pyplot" where
  "plt_plot x y m c =
     on_gcf (on_gca (\<lambda>ax. ax\<lparr>lines := lines ax @
       [\<lparr>xdata = x, ydata = y, marker = m, color = c\<rparr>]\<rparr>))"

definition plt_title :: "string \<Rightarrow> pyplot \<Rightarrow> pyplot" where
  "plt_title t = on_gcf (on_gca (\<lambda>ax. ax\<lparr>title := t\<rparr>))"

definition plt_xticks :: "rat \<Rightarrow> pyplot \<Rightarrow> pyplot" where
  "plt_xticks rotation = on_gcf (on_gca (\<lambda>ax. ax\<lparr>xtick_rotation := rotation\<rparr>))"

definition plt_tight_layout :: "pyplot \<Rightarrow> pyplot" where
  "plt_tight_layout = on_gcf (\<lambda>fig. fig\<lparr>tight := True\<rparr>)"

definition plt_savefig ::
  "(figure \<Rightarrow> byte list) \<Rightarrow> bytes_io \<Rightarrow> pyplot \<Rightarrow> bytes_io \<times> pyplot" where
  "plt_savefig png buf plt =
     (let plt = on_gcf (\<lambda>fig. fig) plt in (bio_write buf (png (last plt)), plt))"

text \<open>
  One of the four blocks of \<open>plot_data\<close>: select the subplot, read the two columns,
  draw the line with round markers, set the title and turn the tick labels by 45 degrees.
  What was drawn before a missing column raises stays drawn.
\<close>

definition panel ::
  "data_frame \<Rightarrow> nat \<Rightarrow> string \<Rightarrow> string option \<Rightarrow> string \<Rightarrow> pyplot \<Rightarrow>
   (error + unit) \<times> pyplot" where
  "panel data index col c t plt =
     (let plt = plt_subplot 2 2 index plt in
      case getitem data ''Date'' of
        Inl e \<Rightarrow> (Inl e, plt)
      | Inr x \<Rightarrow>
         (case getitem data col of
            Inl e \<Rightarrow> (Inl e, plt)
          | Inr y \<Rightarrow>
             (let plt = plt_plot x y ''o'' c plt;
                  plt = plt_title t plt;
                  plt = plt_xticks 45 plt
              in (Inr (), plt))))"

text \<open>
  \<open>plot_data\<close> (tracker.py, lines 34 to 63): a new figure of 10 by 6 inches, the four
  blocks, tight layout, and the figure saved as PNG into a fresh buffer that is rewound
  and returned.
\<close>

definition plot_data ::
  "(figure \<Rightarrow> byte list) \<Rightarrow> data_frame \<Rightarrow> pyplot \<Rightarrow> (error + bytes_io) \<times> pyplot" where
  "plot_data png data plt =
     (let plt = plt_figure (10, 6) plt in
      (case panel data 1 ''Steps'' None ''Steps Over Time'' plt of
        (Inl e, plt) \<Rightarrow> (Inl e, plt)
      | (Inr u, plt) \<Rightarrow>
      (case panel data 2 ''Heart Rate (bpm)'' (Some ''red'') ''Heart Rate Over Time'' plt of
        (Inl e, plt) \<Rightarrow> (Inl e, plt)
      | (Inr u, plt) \<Rightarrow>
      (case panel data 3 ''Calories Burned'' (Some ''green'')
              ''Calories Burned Over Time'' plt of
        (Inl e, plt) \<Rightarrow> (Inl e, plt)
      | (Inr u, plt) \<Rightarrow>
      (case panel data 4 ''Sleep Duration (hours)'' (Some ''purple'')
              ''Sleep Duration Over Time'' plt of
        (Inl e, plt) \<Rightarrow> (Inl e, plt)
      | (Inr u, plt) \<Rightarrow>
        (let plt = plt_tight_layout plt;
             buf = BytesIO;
             (buf, plt) = plt_savefig png buf plt;
             buf = bio_seek buf 0
         in (Inr buf, plt)))))))"

section \<open>The report\<close>

text \<open>The decimal text of an integer, as an f-string prints it.\<close>

function str_nat :: "nat \<Rightarrow> string" where
  "str_nat n =
     (if n < 10 then [''0123456789'' ! n]
      else str_nat (n div 10) @ [''0123456789'' ! (n mod 10)])"
  by pat_completeness auto
termination
  by (relation "measure (\<lambda>n. n)") auto

declare str_nat.simps [simp del]

definition str_int :: "int \<Rightarrow> string" where
  "str_int i = (if i < 0 then CHR ''-'' # str_nat (nat (- i)) else str_nat (nat i))"

text \<open>
  The elements handed to the document layout engine: paragraphs in a named style of the
  sample style sheet, a table of cells with its style commands, and an image read from a
  buffer. The engine itself, which lays the elements out on pages and encodes the
  document, is a parameter \<open>build\<close> of \<open>create_pdf_report\<close>; it may fail.
\<close>

datatype paragraph_style = Title | Heading2 | Heading3 | Normal

datatype colour = grey | whitesmoke | beige | black

datatype table_command =
    BACKGROUND "int \<times> int" "int \<times> int" colour
  | TEXTCOLOR "int \<times> int" "int \<times> int" colour
  | ALIGN "int \<times> int" "int \<times> int" string
  | GRID "int \<times> int" "int \<times> int" rat colour

datatype flowable =
    Paragraph string paragraph_style
  | Table "cell list list" "table_command list"
  | Image bytes_io

fun setStyle :: "flowable \<Rightarrow> table_command list \<Rightarrow> flowable" where
  "setStyle (Table cells cmds) added = Table cells (cmds @ added)"
| "setStyle f added = f"

text \<open>\<^verbatim>\<open>row[c]\<close> on a row that \<^verbatim>\<open>iterrows\<close> yields.\<close>

definition row_getitem :: "string list \<Rightarrow> cell list \<Rightarrow> string \<Rightarrow> error + cell" where
  "row_getitem cols r c =
     (case col_index cols c of None \<Rightarrow> Inl (KeyError c) | Some i \<Rightarrow> Inr (cell_at r i))"

text \<open>The loop over \<^verbatim>\<open>anomalies.iterrows()\<close> that fills \<open>anomaly_data\<close>.\<close>

fun iterrows_append ::
  "string list \<Rightarrow> cell list list \<Rightarrow> cell list list \<Rightarrow> error + cell list list" where
  "iterrows_append cols [] anomaly_data = Inr anomaly_data"
| "iterrows_append cols (row # rest) anomaly_data =
     and_then (row_getitem cols row ''Date'') (\<lambda>a.
     and_then (row_getitem cols row ''Steps'') (\<lambda>b.
     and_then (row_getitem cols row ''Heart Rate (bpm)'') (\<lambda>c.
     and_then (row_getitem cols row ''Calories Burned'') (\<lambda>d.
     and_then (row_getitem cols row ''Sleep Duration (hours)'') (\<lambda>e.
     iterrows_append cols rest (anomaly_data @ [[a, b, c, d, e]]))))))"

text \<open>
  \<open>create_pdf_report\<close> (tracker.py, lines 65 to 105) collects the elements in a list,
  lets the engine build the document into a fresh buffer, rewinds the buffer and returns
  what it reads from there. The parameter \<open>data\<close> is not used.
\<close>

definition create_pdf_report ::
  "(flowable list \<Rightarrow> error + byte list) \<Rightarrow> string \<Rightarrow> int \<Rightarrow> data_frame \<Rightarrow> data_frame \<Rightarrow>
   string list \<Rightarrow> bytes_io \<Rightarrow> error + byte list" where
  "create_pdf_report build name age data anomalies recommendations plot_image_buf =
     (let buffer = BytesIO;
          elements = [];
          title = Paragraph (''Health Report for '' @ name @ '', Age: '' @ str_int age) Title;
          elements = elements @ [title];
          elements = elements @ [Paragraph ''Data Summary:'' Heading2];
          elements = elements @ [Paragraph ''Anomalies Detected:'' Heading3];
          anomaly_data =
            [[Str ''Date'', Str ''Steps'', Str ''Heart Rate (bpm)'', Str ''Calories Burned'',
              Str ''Sleep Duration (hours)'']]
      in
      and_then (iterrows_append (columns anomalies) (rows anomalies) anomaly_data)
        (\<lambda>anomaly_data.
          let anomaly_table = Table anomaly_data [];
              anomaly_table = setStyle anomaly_table
                [BACKGROUND (0, 0) (- 1, 0) grey,
                 TEXTCOLOR (0, 0) (- 1, 0) whitesmoke,
                 ALIGN (0, 0) (- 1, - 1) ''CENTER'',
                 BACKGROUND (0, 1) (- 1, - 1) beige,
                 GRID (0, 0) (- 1, - 1) 1 black];
              elements = elements @ [anomaly_table];
              elements = elements @ [Paragraph ''Recommendations:'' Heading2];
              elements = foldl (\<lambda>elements rec. elements @ [Paragraph (''- '' @ rec) Normal])
                           elements recommendations;
              elements = elements @ [Image plot_image_buf]
          in
          and_then (build elements) (\<lambda>document.
            let buffer = bio_write buffer document;
                buffer = bio_seek buffer 0
            in Inr (fst (bio_read buffer)))))"

section \<open>The application script\<close>

text \<open>
  The script runs top to bottom on every interaction. Its inputs are the name and the age
  typed into the form and the uploaded file, already parsed into a table (absent while
  nothing is uploaded). What it shows is a list of page elements. The state it runs in
  holds the table objects it creates, by reference (an index into \<open>frames\<close>), the state
  of the plotting library, which outlives a run, and the page. An exception ends the run
  and leaves the state as it was when it was raised.
\<close>

datatype st_element =
    St_title string
  | St_text_input string
  | St_number_input string int int int
  | St_write string
  | St_write_frame data_frame
  | St_file_uploader string string
  | St_error string
  | St_download_button string "byte list" string string

record world =
  frames :: "data_frame list"
  plt_state :: pyplot
  page :: "st_element list"

definition st :: "st_element \<Rightarrow> world \<Rightarrow> world" where
  "st e w = w\<lparr>page := page w @ [e]\<rparr>"

definition new_frame :: "data_frame \<Rightarrow> world \<Rightarrow> nat \<times> world" where
  "new_frame df w = (length (frames w), w\<lparr>frames := frames w @ [df]\<rparr>)"

definition frame_at :: "world \<Rightarrow> nat \<Rightarrow> data_frame" where
  "frame_at w r =
     (if r < length (frames w) then frames w ! r else \<lparr>columns = [], rows = []\<rparr>)"

text \<open>\<^verbatim>\<open>data.head()\<close>: the first five rows.\<close>

definition head_frame :: "data_frame \<Rightarrow> data_frame" where
  "head_frame df = df\<lparr>rows := take 5 (rows df)\<rparr>"

text \<open>
  The script (tracker.py, lines 107 to 156). \<^verbatim>\<open>pd.read_csv\<close> creates the table object
  \<open>data\<close>, \<open>detect_anomalies\<close> returns a new table object, bound to \<open>anomalies\<close>.
\<close>

definition streamlit_app ::
  "(figure \<Rightarrow> byte list) \<Rightarrow> (flowable list \<Rightarrow> error + byte list) \<Rightarrow>
   string \<Rightarrow> int \<Rightarrow> data_frame option \<Rightarrow> world \<Rightarrow> (error + unit) \<times> world" where
  "streamlit_app png build name age uploaded_file w =
     (let w = st (St_title ''Smartwatch Health Tracker'') w;
          w = st (St_text_input ''Enter your name:'') w;
          w = st (St_number_input ''Enter your age:'' 0 120 30) w;
          w = st (St_write (''Hello, '' @ name @ ''! You are '' @ str_int age @
                 '' years old.'')) w;
          w = st (St_write ''Upload your CSV file containing smartwatch activity data.'') w;
          w = st (St_file_uploader ''Choose a CSV file'' ''csv'') w
      in
      case uploaded_file of
        None \<Rightarrow> (Inr (), w)
      | Some table \<Rightarrow>
         (let (data, w) = new_frame table w;
              w = st (St_write ''Data Preview:'') w;
              w = st (St_write_frame (head_frame (frame_at w data))) w;
              required_columns =
                [''Date'', ''Steps'', ''Heart Rate (bpm)'', ''Calories Burned'',
                 ''Sleep Duration (hours)'']
          in
          if \<not> list_all (\<lambda>col. col \<in> set (columns (frame_at w data))) required_columns
          then (Inr (), st (St_error
                 (''CSV file must contain the following columns: 'Date', 'Steps', 'Heart '' @
                  ''Rate (bpm)', 'Calories Burned', 'Sleep Duration (hours)'.'')) w)
          else
            case detect_anomalies (frame_at w data) of
              Inl e \<Rightarrow> (Inl e, w)
            | Inr found \<Rightarrow>
               (let (anomalies, w) = new_frame found w;
                    w = st (St_write ''Anomalies Detected:'') w;
                    w = st (St_write_frame (frame_at w anomalies)) w
                in
                case provide_recommendations (frame_at w anomalies) of
                  Inl e \<Rightarrow> (Inl e, w)
                | Inr recommendations \<Rightarrow>
                   (let w = st (St_write ''Recommendations:'') w;
                        w = foldl (\<lambda>w rec. st (St_write (''- '' @ rec)) w) w recommendations
                    in
                    (case plot_data png (frame_at w data) (plt_state w) of
                      (Inl e, plt) \<Rightarrow> (Inl e, w\<lparr>plt_state := plt\<rparr>)
                    | (Inr plot_image_buf, plt) \<Rightarrow>
                       (let w = w\<lparr>plt_state := plt\<rparr> in
                        (case create_pdf_report build name age (frame_at w data)
                               (frame_at w anomalies) recommendations plot_image_buf of
                          Inl e \<Rightarrow> (Inl e, w)
                        | Inr pdf_buf \<Rightarrow>
                           (Inr (), st (St_download_button ''Download Report'' pdf_buf
                                         ''health_report.pdf'' ''application/pdf'') w))))))))"

section \<open>The violation predicates as the specification words them\<close>

text \<open>
  The value of the field labelled \<open>c\<close> in record \<open>r\<close> of a table, when the table has that
  field and the record holds a number there.
\<close>

definition reading :: "data_frame \<Rightarrow> string \<Rightarrow> cell list \<Rightarrow> number option" where
  "reading df c r =
     (case col_index (columns df) c of
        None \<Rightarrow> None
      | Some i \<Rightarrow> (case cell_at r i of Num x \<Rightarrow> Some x | Str s \<Rightarrow> None))"

definition heart_rate_high :: "data_frame \<Rightarrow> cell list \<Rightarrow> bool" where
  "heart_rate_high df r =
     (case reading df ''Heart Rate (bpm)'' r of Some x \<Rightarrow> num_gt x 100 | None \<Rightarrow> False)"

definition steps_low :: "data_frame \<Rightarrow> cell list \<Rightarrow> bool" where
  "steps_low df r =
     (case reading df ''Steps'' r of Some x \<Rightarrow> num_lt x 1000 | None \<Rightarrow> False)"

definition sleep_short :: "data_frame \<Rightarrow> cell list \<Rightarrow> bool" where
  "sleep_short df r =
     (case reading df ''Sleep Duration (hours)'' r of Some x \<Rightarrow> num_lt x 5 | None \<Rightarrow> False)"

definition violates :: "data_frame \<Rightarrow> cell list \<Rightarrow> bool" where
  "violates df r = (heart_rate_high df r \<or> steps_low df r \<or> sleep_short df r)"

text \<open>
  The data model of the specification, as far as the two list stages depend on it: a
  dataset has the three compared fields, and every record holds a number (possibly the
  missing value) in each of them.
\<close>

fun is_num :: "cell \<Rightarrow> bool" where
  "is_num (Num x) = True"
| "is_num (Str s) = False"

definition numeric_column :: "data_frame \<Rightarrow> string \<Rightarrow> bool" where
  "numeric_column df c =
     (case col_index (columns df) c of
        None \<Rightarrow> False
      | Some i \<Rightarrow> list_all (\<lambda>r. is_num (cell_at r i)) (rows df))"

definition is_dataset :: "data_frame \<Rightarrow> bool" where
  "is_dataset df =
     (numeric_column df ''Heart Rate (bpm)'' \<and> numeric_column df ''Steps'' \<and>
      numeric_column df ''Sleep Duration (hours)'')"

text \<open>The four fixed sentences of \<open>provide_recommendations\<close>, by name.\<close>

abbreviation heart_rate_advice :: string where
  "heart_rate_advice \<equiv> ''Consider consulting a doctor about high heart rate readings.''"

abbreviation steps_advice :: string where
  "steps_advice \<equiv> ''Increase daily steps to at least 1000 for better health.''"

abbreviation sleep_advice :: string where
  "sleep_advice \<equiv> ''Ensure to get at least 5-7 hours of sleep daily.''"

abbreviation all_clear :: string where
  "all_clear \<equiv> ''No anomalies detected. Keep up the good work!''"

section \<open>The outputs as the specification describes them\<close>

text \<open>The five field names, and the check of the script that a table has them all.\<close>

definition required_header :: "string list" where
  "required_header =
     [''Date'', ''Steps'', ''Heart Rate (bpm)'', ''Calories Burned'',
      ''Sleep Duration (hours)'']"

definition has_required_columns :: "data_frame \<Rightarrow> bool" where
  "has_required_columns df = list_all (\<lambda>col. col \<in> set (columns df)) required_header"







text \<open>What the script shows before it looks at the uploaded file.\<close>

definition preamble :: "string \<Rightarrow> int \<Rightarrow> st_element list" where
  "preamble name age =
     [St_title ''Smartwatch Health Tracker'',
      St_text_input ''Enter your name:'',
      St_number_input ''Enter your age:'' 0 120 30,
      St_write (''Hello, '' @ name @ ''! You are '' @ str_int age @ '' years old.''),
      St_write ''Upload your CSV file containing smartwatch activity data.'',
      St_file_uploader ''Choose a CSV file'' ''csv'']"

definition schema_error :: st_element where
  "schema_error =
     St_error (''CSV file must contain the following columns: 'Date', 'Steps', 'Heart '' @
               ''Rate (bpm)', 'Calories Burned', 'Sleep Duration (hours)'.'')"

section \<open>Sample inputs\<close>

text \<open>Three days: too few steps, a good day, and a racing heart after a short night.\<close>

definition three_days :: data_frame where
  "three_days =
     \<lparr>columns = required_header,
      rows =
        [[Str ''2024-01-01'', Num (Finite 500), Num (Finite 72), Num (Finite 1800),
          Num (Finite 7)],
         [Str ''2024-01-02'', Num (Finite 8000), Num (Finite 65), Num (Finite 2200),
          Num (Finite 7.5)],
         [Str ''2024-01-03'', Num (Finite 12000), Num (Finite 120), Num (Finite 2500),
          Num (Finite 4.5)]]\<rparr>"

text \<open>The records of \<open>three_days\<close> that breach a threshold.\<close>

definition two_bad_days :: data_frame where
  "two_bad_days =
     \<lparr>columns = required_header,
      rows =
        [[Str ''2024-01-01'', Num (Finite 500), Num (Finite 72), Num (Finite 1800),
          Num (Finite 7)],
         [Str ''2024-01-03'', Num (Finite 12000), Num (Finite 120), Num (Finite 2500),
          Num (Finite 4.5)]]\<rparr>"

text \<open>Two records that breach the heart-rate threshold and no other.\<close>

definition two_racing_hearts :: data_frame where
  "two_racing_hearts =
     \<lparr>columns = required_header,
      rows =
        [[Str ''2024-02-01'', Num (Finite 5000), Num (Finite 130), Num (Finite 2000),
          Num (Finite 8)],
         [Str ''2024-02-02'', Num (Finite 6000), Num (Finite 140), Num (Finite 2100),
          Num (Finite 6)]]\<rparr>"

text \<open>The two scenario rows of the specification, each as a table of its own.\<close>

definition low_steps_day :: data_frame where
  "low_steps_day =
     \<lparr>columns = required_header,
      rows =
        [[Str ''2024-01-01'', Num (Finite 500), Num (Finite 72), Num (Finite 1800),
          Num (Finite 7)]]\<rparr>"

definition good_day :: data_frame where
  "good_day =
     \<lparr>columns = required_header,
      rows =
        [[Str ''2024-01-02'', Num (Finite 8000), Num (Finite 65), Num (Finite 2200),
          Num (Finite 7.5)]]\<rparr>"

text \<open>An upload without the sleep column.\<close>

definition no_sleep_column :: data_frame where
  "no_sleep_column =
     \<lparr>columns = [''Date'', ''Steps'', ''Heart Rate (bpm)'', ''Calories Burned''],
      rows = [[Str ''2024-01-01'', Num (Finite 500), Num (Finite 72), Num (Finite 1800)]]\<rparr>"

text \<open>
  Stand-ins for the two library encoders: an image that holds the number of axes of the
  figure, a document that holds the number of its elements.
\<close>

definition count_axes :: "figure \<Rightarrow> byte list" where
  "count_axes fig = [of_nat (length (axes_list fig))]"

definition count_elements :: "flowable list \<Rightarrow> error + byte list" where
  "count_elements elements = Inr [of_nat (length elements)]"

definition blank_world :: world where
  "blank_world = \<lparr>frames = [], plt_state = [], page = []\<rparr>"

section \<open>Properties of the table operations\<close>

lemma series_gt_numeric:
  "list_all (\<lambda>r. is_num (f r)) rs \<Longrightarrow>
   series_gt (map f rs) k =
     Inr (map (\<lambda>r. case f r of Num x \<Rightarrow> num_gt x k | Str s \<Rightarrow> False) rs)"
proof (induction rs)
  case Nil
  show ?case by simp
next
  case (Cons r rs)
  then obtain x where "f r = Num x" by (cases "f r") auto
  with Cons show ?case by simp
qed

lemma series_lt_numeric:
  "list_all (\<lambda>r. is_num (f r)) rs \<Longrightarrow>
   series_lt (map f rs) k =
     Inr (map (\<lambda>r. case f r of Num x \<Rightarrow> num_lt x k | Str s \<Rightarrow> False) rs)"
proof (induction rs)
  case Nil
  show ?case by simp
next
  case (Cons r rs)
  then obtain x where "f r = Num x" by (cases "f r") auto
  with Cons show ?case by simp
qed

lemma heart_rate_mask:
  assumes "numeric_column df ''Heart Rate (bpm)''"
  shows "and_then (getitem df ''Heart Rate (bpm)'') (\<lambda>hr. and_then (series_gt hr 100) g) =
         g (map (heart_rate_high df) (rows df))"
proof -
  from assms obtain i where i: "col_index (columns df) ''Heart Rate (bpm)'' = Some i"
    and n: "list_all (\<lambda>r. is_num (cell_at r i)) (rows df)"
    by (auto simp: numeric_column_def split: option.splits)
  have "map (\<lambda>r. case cell_at r i of Num x \<Rightarrow> num_gt x 100 | Str s \<Rightarrow> False) (rows df) =
        map (heart_rate_high df) (rows df)"
    by (rule map_cong) (auto simp: heart_rate_high_def reading_def i split: cell.splits)
  with i series_gt_numeric [OF n, of 100] show ?thesis
    by (simp add: getitem_def)
qed

lemma steps_mask:
  assumes "numeric_column df ''Steps''"
  shows "and_then (getitem df ''Steps'') (\<lambda>st. and_then (series_lt st 1000) g) =
         g (map (steps_low df) (rows df))"
proof -
  from assms obtain i where i: "col_index (columns df) ''Steps'' = Some i"
    and n: "list_all (\<lambda>r. is_num (cell_at r i)) (rows df)"
    by (auto simp: numeric_column_def split: option.splits)
  have "map (\<lambda>r. case cell_at r i of Num x \<Rightarrow> num_lt x 1000 | Str s \<Rightarrow> False) (rows df) =
        map (steps_low df) (rows df)"
    by (rule map_cong) (auto simp: steps_low_def reading_def i split: cell.splits)
  with i series_lt_numeric [OF n, of 1000] show ?thesis
    by (simp add: getitem_def)
qed

lemma sleep_mask:
  assumes "numeric_column df ''Sleep Duration (hours)''"
  shows "and_then (getitem df ''Sleep Duration (hours)'')
           (\<lambda>sl. and_then (series_lt sl 5) g) =
         g (map (sleep_short df) (rows df))"
proof -
  from assms obtain i where i: "col_index (columns df) ''Sleep Duration (hours)'' = Some i"
    and n: "list_all (\<lambda>r. is_num (cell_at r i)) (rows df)"
    by (auto simp: numeric_column_def split: option.splits)
  have "map (\<lambda>r. case cell_at r i of Num x \<Rightarrow> num_lt x 5 | Str s \<Rightarrow> False) (rows df) =
        map (sleep_short df) (rows df)"
    by (rule map_cong) (auto simp: sleep_short_def reading_def i split: cell.splits)
  with i series_lt_numeric [OF n, of 5] show ?thesis
    by (simp add: getitem_def)
qed

lemma series_or_map: "series_or (map p rs) (map q rs) = map (\<lambda>r. p r \<or> q r) rs"
  by (induction rs) (simp_all add: series_or_def)

lemma mask_filter: "map fst (filter snd (zip rs (map p rs))) = filter p rs"
  by (induction rs) simp_all

lemma detect_anomalies_filter:
  assumes "is_dataset df"
  shows "detect_anomalies df = Inr (df\<lparr>rows := filter (violates df) (rows df)\<rparr>)"
proof -
  from assms have hr: "numeric_column df ''Heart Rate (bpm)''"
    and st: "numeric_column df ''Steps''"
    and sl: "numeric_column df ''Sleep Duration (hours)''"
    by (simp_all add: is_dataset_def)
  have "(\<lambda>r. (heart_rate_high df r \<or> steps_low df r) \<or> sleep_short df r) = violates df"
    by (auto simp: violates_def)
  then show ?thesis
    unfolding detect_anomalies_def
    by (simp only: heart_rate_mask [OF hr] steps_mask [OF st] sleep_mask [OF sl]
          series_or_map getitem_mask_def mask_filter)
qed

lemmas table_eval =
  is_dataset_def numeric_column_def violates_def heart_rate_high_def steps_low_def
  sleep_short_def reading_def cell_at_def required_header_def

section \<open>Properties of the recommendations\<close>

lemma series_any_map: "series_any (map p rs) = (\<exists>r \<in> set rs. p r)"
  by (simp add: series_any_def list_ex_iff)

lemma provide_recommendations_dataset:
  assumes "is_dataset a" and "\<not> df_empty a"
  shows "provide_recommendations a =
         Inr ((if \<exists>r \<in> set (rows a). heart_rate_high a r then [heart_rate_advice] else []) @
              (if \<exists>r \<in> set (rows a). steps_low a r then [steps_advice] else []) @
              (if \<exists>r \<in> set (rows a). sleep_short a r then [sleep_advice] else []))"
proof -
  from assms(1) have hr: "numeric_column a ''Heart Rate (bpm)''"
    and st: "numeric_column a ''Steps''"
    and sl: "numeric_column a ''Sleep Duration (hours)''"
    by (simp_all add: is_dataset_def)
  show ?thesis
    unfolding provide_recommendations_def Let_def
    using assms(2)
    by (simp add: heart_rate_mask [OF hr] steps_mask [OF st] sleep_mask [OF sl]
          series_any_map)
qed

lemma provide_recommendations_empty:
  "df_empty a \<Longrightarrow> provide_recommendations a = Inr [all_clear]"
  by (simp add: provide_recommendations_def)

lemma numeric_column_filter:
  "numeric_column df c \<Longrightarrow> numeric_column (df\<lparr>rows := filter p (rows df)\<rparr>) c"
  by (auto simp: numeric_column_def list_all_iff split: option.splits)

lemma is_dataset_filter:
  "is_dataset df \<Longrightarrow> is_dataset (df\<lparr>rows := filter p (rows df)\<rparr>)"
  by (simp add: is_dataset_def numeric_column_filter)

lemma is_dataset_columns: "is_dataset df \<Longrightarrow> columns df \<noteq> []"
  by (auto simp: is_dataset_def numeric_column_def)

lemma predicates_rows_update [simp]:
  "heart_rate_high (df\<lparr>rows := rs\<rparr>) = heart_rate_high df"
  "steps_low (df\<lparr>rows := rs\<rparr>) = steps_low df"
  "sleep_short (df\<lparr>rows := rs\<rparr>) = sleep_short df"
  by (simp_all add: fun_eq_iff heart_rate_high_def steps_low_def sleep_short_def reading_def)

lemma pipeline_no_violation:
  assumes "is_dataset d" and "\<forall>r \<in> set (rows d). \<not> violates d r"
  shows "and_then (detect_anomalies d) provide_recommendations = Inr [all_clear]"
proof -
  from assms(2) have "filter (violates d) (rows d) = []"
    by (simp add: filter_empty_conv)
  then have "detect_anomalies d = Inr (d\<lparr>rows := []\<rparr>)"
    using detect_anomalies_filter [OF assms(1)] by simp
  then show ?thesis
    by (simp add: provide_recommendations_empty df_empty_def)
qed

lemma all_clear_iff_empty:
  assumes "provide_recommendations b = Inr recs"
  shows "(all_clear \<in> set recs) = df_empty b"
proof (cases "df_empty b")
  case True
  with assms show ?thesis by (auto simp: provide_recommendations_def)
next
  case False
  with assms show ?thesis
    unfolding provide_recommendations_def Let_def
    by (cases "getitem b ''Heart Rate (bpm)''"; simp;
        cases "series_gt (projr (getitem b ''Heart Rate (bpm)'')) 100"; simp;
        cases "getitem b ''Steps''"; simp;
        cases "series_lt (projr (getitem b ''Steps'')) 1000"; simp;
        cases "getitem b ''Sleep Duration (hours)''"; simp;
        cases "series_lt (projr (getitem b ''Sleep Duration (hours)'')) 5"; simp)
      (auto split: if_splits)
qed

section \<open>Properties of the chart\<close>










section \<open>Properties of the report\<close>






section \<open>Properties of the script\<close>

lemma frames_st [simp]: "frames (st e w) = frames w"
  and plt_state_st [simp]: "plt_state (st e w) = plt_state w"
  and page_st [simp]: "page (st e w) = page w @ [e]"
  by (simp_all add: st_def)



section \<open>The detector\<close>

text \<open>
  Claim C1. On every dataset the detector succeeds, and its result is the same table with
  exactly the records that satisfy heart rate above 100, or steps below 1000, or sleep
  below 5 hours: no other record is returned, none of them is left out, and they stand in
  their original order. The detector of a dataset with no record is that dataset.
\<close>

theorem detect_anomalies_exact:
  assumes "is_dataset df"
  shows "\<exists>out. detect_anomalies df = Inr out \<and>
           columns out = columns df \<and>
           rows out = filter (violates df) (rows df) \<and>
           (\<forall>r \<in> set (rows out). violates df r) \<and>
           (\<forall>r \<in> set (rows df). violates df r \<longrightarrow> r \<in> set (rows out)) \<and>
           (rows df = [] \<longrightarrow> out = df)"
proof -
  let ?out = "df\<lparr>rows := filter (violates df) (rows df)\<rparr>"
  have "detect_anomalies df = Inr ?out"
    using assms by (rule detect_anomalies_filter)
  moreover have "columns ?out = columns df" by simp
  moreover have "rows ?out = filter (violates df) (rows df)" by simp
  moreover have "\<forall>r \<in> set (rows ?out). violates df r" by simp
  moreover have "\<forall>r \<in> set (rows df). violates df r \<longrightarrow> r \<in> set (rows ?out)" by simp
  moreover have "rows df = [] \<longrightarrow> ?out = df" by simp
  ultimately show ?thesis by blast
qed

theorem detect_anomalies_exact_witness:
  "is_dataset three_days \<and> detect_anomalies three_days = Inr two_bad_days"
proof -
  have d: "is_dataset three_days"
    by (simp add: three_days_def table_eval)
  from detect_anomalies_exact [OF d] obtain out where
    "detect_anomalies three_days = Inr out"
    "columns out = columns three_days"
    "rows out = filter (violates three_days) (rows three_days)"
    by blast
  then have "detect_anomalies three_days = Inr out \<and> columns out = columns two_bad_days \<and>
    rows out = rows two_bad_days"
    by (simp add: three_days_def two_bad_days_def table_eval)
  with d show ?thesis by (cases out, cases two_bad_days) simp
qed

section \<open>The recommendations\<close>

text \<open>
  Claim C2. On every dataset that is not empty, the recommendations are built from three
  independent tests on the whole table: whether some record has a heart rate above 100,
  whether some record has fewer than 1000 steps, whether some record has less than 5 hours
  of sleep. Each test that succeeds contributes its one fixed sentence, in the order heart
  rate, steps, sleep; so there are at most three sentences and none occurs twice, however
  many records trigger it.
\<close>

theorem provide_recommendations_existence_checks:
  assumes "is_dataset a" and "\<not> df_empty a"
  shows "\<exists>recs. provide_recommendations a = Inr recs \<and>
           recs =
             (if \<exists>r \<in> set (rows a). heart_rate_high a r then [heart_rate_advice] else []) @
             (if \<exists>r \<in> set (rows a). steps_low a r then [steps_advice] else []) @
             (if \<exists>r \<in> set (rows a). sleep_short a r then [sleep_advice] else []) \<and>
           length recs \<le> 3 \<and> distinct recs"
  using provide_recommendations_dataset [OF assms] by simp

theorem provide_recommendations_existence_checks_witness:
  "is_dataset two_racing_hearts \<and> \<not> df_empty two_racing_hearts \<and>
   provide_recommendations two_racing_hearts = Inr [heart_rate_advice] \<and>
   is_dataset three_days \<and> \<not> df_empty three_days \<and>
   provide_recommendations three_days = Inr [heart_rate_advice, steps_advice, sleep_advice]"
proof -
  have d: "is_dataset two_racing_hearts" "is_dataset three_days"
    by (simp_all add: two_racing_hearts_def three_days_def table_eval)
  have e: "\<not> df_empty two_racing_hearts" "\<not> df_empty three_days"
    by (simp_all add: two_racing_hearts_def three_days_def df_empty_def required_header_def)
  from provide_recommendations_existence_checks [OF d(1) e(1)]
  have "provide_recommendations two_racing_hearts = Inr [heart_rate_advice]"
    by (simp add: two_racing_hearts_def table_eval)
  moreover from provide_recommendations_existence_checks [OF d(2) e(2)]
  have "provide_recommendations three_days =
      Inr [heart_rate_advice, steps_advice, sleep_advice]"
    by (simp add: three_days_def table_eval)
  ultimately show ?thesis using d e by simp
qed

text \<open>
  Claim C3. On an empty table the recommendations are exactly the one fixed sentence
  \<open>No anomalies detected. Keep up the good work!\<close>. A dataset in which no record breaches
  a threshold has an empty detector result, so the two stages in sequence give that one
  sentence. The record of 2024-01-02 with 8000 steps, heart rate 65, 2200 calories and 7.5
  hours of sleep, alone in a dataset, is left out by the detector, and the recommendations
  of the result are that one sentence.
\<close>

theorem all_clear_when_empty:
  "(df_empty a \<longrightarrow> provide_recommendations a = Inr [all_clear]) \<and>
   (is_dataset d \<and> (\<forall>r \<in> set (rows d). \<not> violates d r) \<longrightarrow>
      and_then (detect_anomalies d) provide_recommendations = Inr [all_clear]) \<and>
   detect_anomalies good_day = Inr (good_day\<lparr>rows := []\<rparr>) \<and>
   provide_recommendations (good_day\<lparr>rows := []\<rparr>) = Inr [all_clear]"
proof -
  have g: "is_dataset good_day"
    by (simp add: good_day_def table_eval)
  have "filter (violates good_day) (rows good_day) = []"
    by (simp add: good_day_def table_eval)
  with detect_anomalies_filter [OF g]
  have "detect_anomalies good_day = Inr (good_day\<lparr>rows := []\<rparr>)" by simp
  moreover have "provide_recommendations (good_day\<lparr>rows := []\<rparr>) = Inr [all_clear]"
    by (simp add: provide_recommendations_empty df_empty_def)
  ultimately show ?thesis
    using provide_recommendations_empty [of a] pipeline_no_violation [of d] by blast
qed

theorem all_clear_when_empty_witness:
  "df_empty \<lparr>columns = required_header, rows = []\<rparr> \<and>
   provide_recommendations \<lparr>columns = required_header, rows = []\<rparr> = Inr [all_clear] \<and>
   is_dataset good_day \<and> \<not> list_ex (violates good_day) (rows good_day) \<and>
   and_then (detect_anomalies good_day) provide_recommendations = Inr [all_clear]"
proof -
  have e: "df_empty \<lparr>columns = required_header, rows = []\<rparr>"
    by (simp add: df_empty_def)
  have g: "is_dataset good_day"
    by (simp add: good_day_def table_eval)
  have v: "\<not> list_ex (violates good_day) (rows good_day)"
    by (simp add: good_day_def table_eval)
  then have n: "\<forall>r \<in> set (rows good_day). \<not> violates good_day r"
    by (simp add: list_ex_iff)
  from all_clear_when_empty [of "\<lparr>columns = required_header, rows = []\<rparr>" good_day] e g n v
  show ?thesis by blast
qed

text \<open>
  Claim C4. For the single record of 2024-01-01 with 500 steps, heart rate 72, 1800
  calories and 7 hours of sleep, the detector keeps the record, because its steps are
  below 1000, and the recommendations of the result are exactly the one sentence
  \<open>Increase daily steps to at least 1000 for better health.\<close>.
\<close>

theorem low_steps_scenario:
  "rows low_steps_day =
     [[Str ''2024-01-01'', Num (Finite 500), Num (Finite 72), Num (Finite 1800),
       Num (Finite 7)]] \<and>
   detect_anomalies low_steps_day = Inr low_steps_day \<and>
   steps_low low_steps_day (hd (rows low_steps_day)) \<and>
   provide_recommendations low_steps_day = Inr [steps_advice]"
proof -
  have d: "is_dataset low_steps_day"
    by (simp add: low_steps_day_def table_eval)
  have f: "filter (violates low_steps_day) (rows low_steps_day) = rows low_steps_day"
    by (simp add: low_steps_day_def table_eval)
  have "detect_anomalies low_steps_day = Inr low_steps_day"
    using detect_anomalies_filter [OF d] by (simp add: f)
  moreover have "provide_recommendations low_steps_day = Inr [steps_advice]"
    using provide_recommendations_dataset [OF d]
    by (simp add: low_steps_day_def df_empty_def table_eval)
  moreover have "steps_low low_steps_day (hd (rows low_steps_day))"
    by (simp add: low_steps_day_def table_eval)
  ultimately show ?thesis by (simp add: low_steps_day_def)
qed

text \<open>
  Claim C9. On a dataset that is not empty and in which no record breaches any of the
  three thresholds, the recommendations are the empty list: no advisory sentence and not
  the fallback sentence either. Whenever the recommendations are computed, the fallback
  sentence is among them exactly when the table is empty.
\<close>

theorem no_violation_no_advice:
  assumes "is_dataset a" and "\<not> df_empty a" and "\<forall>r \<in> set (rows a). \<not> violates a r"
  shows "provide_recommendations a = Inr [] \<and>
         (\<forall>b recs. provide_recommendations b = Inr recs \<longrightarrow>
            (all_clear \<in> set recs) = df_empty b)"
proof -
  from assms(3) have "provide_recommendations a = Inr []"
    using provide_recommendations_dataset [OF assms(1,2)] by (simp add: violates_def)
  with all_clear_iff_empty show ?thesis by blast
qed

theorem no_violation_no_advice_witness:
  "is_dataset good_day \<and> \<not> df_empty good_day \<and> rows good_day \<noteq> [] \<and>
   \<not> list_ex (violates good_day) (rows good_day) \<and>
   provide_recommendations good_day = Inr []"
proof -
  have g: "is_dataset good_day"
    by (simp add: good_day_def table_eval)
  have e: "\<not> df_empty good_day" "rows good_day \<noteq> []"
    by (simp_all add: good_day_def df_empty_def required_header_def)
  have v: "\<not> list_ex (violates good_day) (rows good_day)"
    by (simp add: good_day_def table_eval)
  then have n: "\<forall>r \<in> set (rows good_day). \<not> violates good_day r"
    by (simp add: list_ex_iff)
  from no_violation_no_advice [OF g e(1) n] g e v show ?thesis by blast
qed

text \<open>
  Claim C10. On every dataset the detector followed by the recommendations succeeds, and
  the sentence of a threshold is among the recommendations if and only if some record of
  the whole dataset breaches that threshold: filtering loses no record that matters.
\<close>

theorem advice_iff_dataset_violation:
  assumes "is_dataset d"
  shows "\<exists>recs. and_then (detect_anomalies d) provide_recommendations = Inr recs \<and>
           ((heart_rate_advice \<in> set recs) = (\<exists>r \<in> set (rows d). heart_rate_high d r)) \<and>
           ((steps_advice \<in> set recs) = (\<exists>r \<in> set (rows d). steps_low d r)) \<and>
           ((sleep_advice \<in> set recs) = (\<exists>r \<in> set (rows d). sleep_short d r))"
proof -
  let ?sub = "d\<lparr>rows := filter (violates d) (rows d)\<rparr>"
  have det: "detect_anomalies d = Inr ?sub"
    using assms by (rule detect_anomalies_filter)
  have sub: "is_dataset ?sub"
    using assms by (rule is_dataset_filter)
  show ?thesis
  proof (cases "df_empty ?sub")
    case True
    with is_dataset_columns [OF assms] have "filter (violates d) (rows d) = []"
      by (simp add: df_empty_def)
    then have none: "\<forall>r \<in> set (rows d). \<not> violates d r"
      by (simp add: filter_empty_conv)
    have "and_then (detect_anomalies d) provide_recommendations = Inr [all_clear]"
      using det True by (simp add: provide_recommendations_empty)
    with none show ?thesis by (simp add: violates_def)
  next
    case False
    have "and_then (detect_anomalies d) provide_recommendations =
          provide_recommendations ?sub"
      using det by simp
    then show ?thesis
      using provide_recommendations_dataset [OF sub False]
      by (auto simp: violates_def)
  qed
qed

theorem advice_iff_dataset_violation_witness:
  "is_dataset two_racing_hearts \<and>
   and_then (detect_anomalies two_racing_hearts) provide_recommendations =
     Inr [heart_rate_advice] \<and>
   list_ex (heart_rate_high two_racing_hearts) (rows two_racing_hearts) \<and>
   \<not> list_ex (steps_low two_racing_hearts) (rows two_racing_hearts) \<and>
   \<not> list_ex (sleep_short two_racing_hearts) (rows two_racing_hearts)"
proof -
  have d: "is_dataset two_racing_hearts"
    by (simp add: two_racing_hearts_def table_eval)
  have p: "list_ex (heart_rate_high two_racing_hearts) (rows two_racing_hearts)"
    "\<not> list_ex (steps_low two_racing_hearts) (rows two_racing_hearts)"
    "\<not> list_ex (sleep_short two_racing_hearts) (rows two_racing_hearts)"
    by (simp_all add: two_racing_hearts_def table_eval)
  have f: "detect_anomalies two_racing_hearts =
      Inr (two_racing_hearts\<lparr>rows :=
             filter (violates two_racing_hearts) (rows two_racing_hearts)\<rparr>)"
    using d by (rule detect_anomalies_filter)
  have e: "two_racing_hearts\<lparr>rows :=
        filter (violates two_racing_hearts) (rows two_racing_hearts)\<rparr> = two_racing_hearts"
    by (simp add: two_racing_hearts_def table_eval)
  have r: "and_then (detect_anomalies two_racing_hearts) provide_recommendations =
      Inr [heart_rate_advice]"
    using provide_recommendations_dataset [OF d] unfolding f e
    by (simp add: two_racing_hearts_def df_empty_def table_eval)
  from advice_iff_dataset_violation [OF d] d p r show ?thesis by blast
qed

section \<open>The chart renderer\<close>



section \<open>The report assembler\<close>



section \<open>The script\<close>

text \<open>
  Claim C6. When the uploaded table lacks one of the five required columns, the script
  stops after the column check: it has shown the preview, it shows the schema error
  message, and it ends without an exception. No table of flagged records is created, no
  recommendation is shown, the state of the plotting library is untouched and no report is
  offered; the outcome does not depend on the image encoder or the layout engine.
\<close>

theorem missing_column_short_circuit:
  assumes "\<not> has_required_columns table"
  shows "streamlit_app png build name age (Some table) w =
         (Inr (),
          w\<lparr>frames := frames w @ [table],
            page := page w @ preamble name age @
              [St_write ''Data Preview:'', St_write_frame (head_frame table),
               schema_error]\<rparr>)"
  using assms
  unfolding streamlit_app_def Let_def
  by (simp add: has_required_columns_def required_header_def new_frame_def frame_at_def
        st_def preamble_def schema_error_def)

theorem missing_column_short_circuit_witness:
  "\<not> has_required_columns no_sleep_column \<and>
   detect_anomalies no_sleep_column = Inl (KeyError ''Sleep Duration (hours)'') \<and>
   streamlit_app count_axes count_elements ''Ann'' 41 (Some no_sleep_column) blank_world =
     (Inr (),
      \<lparr>frames = [no_sleep_column], plt_state = [],
       page =
         [St_title ''Smartwatch Health Tracker'',
          St_text_input ''Enter your name:'',
          St_number_input ''Enter your age:'' 0 120 30,
          St_write ''Hello, Ann! You are 41 years old.'',
          St_write ''Upload your CSV file containing smartwatch activity data.'',
          St_file_uploader ''Choose a CSV file'' ''csv'',
          St_write ''Data Preview:'',
          St_write_frame no_sleep_column,
          schema_error]\<rparr>)"
proof -
  have h: "\<not> has_required_columns no_sleep_column"
    by (simp add: has_required_columns_def no_sleep_column_def required_header_def)
  have d: "detect_anomalies no_sleep_column = Inl (KeyError ''Sleep Duration (hours)'')"
    by (simp add: detect_anomalies_def getitem_def no_sleep_column_def cell_at_def)
  have a: "str_int 41 = ''41''"
    by (simp add: str_int_def str_nat.simps)
  have p: "head_frame no_sleep_column = no_sleep_column"
    by (simp add: head_frame_def no_sleep_column_def)
  from missing_column_short_circuit [OF h, of count_axes count_elements "''Ann''" 41
      blank_world]
  have "streamlit_app count_axes count_elements ''Ann'' 41 (Some no_sleep_column)
      blank_world =
     (Inr (),
      \<lparr>frames = [no_sleep_column], plt_state = [],
       page =
         [St_title ''Smartwatch Health Tracker'',
          St_text_input ''Enter your name:'',
          St_number_input ''Enter your age:'' 0 120 30,
          St_write ''Hello, Ann! You are 41 years old.'',
          St_write ''Upload your CSV file containing smartwatch activity data.'',
          St_file_uploader ''Choose a CSV file'' ''csv'',
          St_write ''Data Preview:'',
          St_write_frame no_sleep_column,
          schema_error]\<rparr>)"
    by (simp add: blank_world_def preamble_def a p)
  with h d show ?thesis by simp
qed



end
